theory Spec2Isabelle
  imports Main "HOL-Library.AList"
begin

section \<open>Strings and exceptions\<close>

text \<open>
  A Python \<open>str\<close> is a sequence of Unicode code points and is modelled as the list of
  them, so \<open>length\<close> is Python's \<open>len\<close>. \<open>lit\<close> writes a literal of the program
  and \<open>cp\<close> a character of it.
\<close>

type_synonym str = "nat list"

abbreviation cp :: "char \<Rightarrow> nat" where
  "cp c \<equiv> of_char c"

abbreviation lit :: "string \<Rightarrow> str" where
  "lit s \<equiv> map of_char s"

text \<open>
  The exceptions the handlers raise or meet, which are the three classes the wrapper
  \<open>input_error\<close> catches: \<open>ValueError\<close> carries its message (\<open>str(e)\<close>), the
  others are identified by their class.
\<close>

datatype py_error = ValueError str | KeyError | IndexError

subsection \<open>The digit classes of the Unicode database\<close>

text \<open>
  The decimal digits (\<open>str.isdecimal\<close>, the class \<^verbatim>\<open>\d\<close> of \<open>re\<close>, the digits
  \<open>int\<close> converts) come in runs of ten code points with the values 0 to 9, the ASCII
  digits first. \<open>DECIMAL_BLOCKS\<close> lists where each run starts, and
  \<open>DIGIT_ONLY_RANGES\<close> the ranges of the characters that are digits for
  \<open>str.isdigit\<close> without being decimal (superscripts, circled digits and the like).
  Both tables are those of \<open>unicodedata\<close> in CPython 3.11 (Unicode 14.0).
\<close>

definition DECIMAL_BLOCKS :: "nat list" where
  "DECIMAL_BLOCKS =
    [0x0030, 0x0660, 0x06F0, 0x07C0, 0x0966, 0x09E6, 0x0A66, 0x0AE6,
     0x0B66, 0x0BE6, 0x0C66, 0x0CE6, 0x0D66, 0x0DE6, 0x0E50, 0x0ED0,
     0x0F20, 0x1040, 0x1090, 0x17E0, 0x1810, 0x1946, 0x19D0, 0x1A80,
     0x1A90, 0x1B50, 0x1BB0, 0x1C40, 0x1C50, 0xA620, 0xA8D0, 0xA900,
     0xA9D0, 0xA9F0, 0xAA50, 0xABF0, 0xFF10, 0x104A0, 0x10D30, 0x11066,
     0x110F0, 0x11136, 0x111D0, 0x112F0, 0x11450, 0x114D0, 0x11650, 0x116C0,
     0x11730, 0x118E0, 0x11950, 0x11C50, 0x11D50, 0x11DA0, 0x16A60, 0x16AC0,
     0x16B50, 0x1D7CE, 0x1D7D8, 0x1D7E2, 0x1D7EC, 0x1D7F6, 0x1E140, 0x1E2F0,
     0x1E950, 0x1FBF0]"

definition DIGIT_ONLY_RANGES :: "(nat \<times> nat) list" where
  "DIGIT_ONLY_RANGES =
    [(0x00B2, 0x00B3), (0x00B9, 0x00B9), (0x1369, 0x1371), (0x19DA, 0x19DA),
     (0x2070, 0x2070), (0x2074, 0x2079), (0x2080, 0x2089), (0x2460, 0x2468),
     (0x2474, 0x247C), (0x2488, 0x2490), (0x24EA, 0x24EA), (0x24F5, 0x24FD),
     (0x24FF, 0x24FF), (0x2776, 0x277E), (0x2780, 0x2788), (0x278A, 0x2792),
     (0x10A40, 0x10A43), (0x10E60, 0x10E68), (0x11052, 0x1105A), (0x1F100, 0x1F10A)]"

definition decimal_block :: "nat \<Rightarrow> nat option" where
  "decimal_block c = find (\<lambda>b. b \<le> c \<and> c < b + 10) DECIMAL_BLOCKS"

definition isdecimal_char :: "nat \<Rightarrow> bool" where
  "isdecimal_char c = (decimal_block c \<noteq> None)"

text \<open>The value of a decimal digit, as \<open>int\<close> reads it.\<close>

definition decimal_value :: "nat \<Rightarrow> nat" where
  "decimal_value c = (case decimal_block c of Some b \<Rightarrow> c - b | None \<Rightarrow> 0)"

text \<open>
  \<open>str.isdigit\<close>: true when the string is not empty and every character is a digit
  character, decimal or not.
\<close>

definition isdigit_char :: "nat \<Rightarrow> bool" where
  "isdigit_char c =
     (isdecimal_char c \<or> list_ex (\<lambda>(lo, hi). lo \<le> c \<and> c \<le> hi) DIGIT_ONLY_RANGES)"

definition isdigit :: "str \<Rightarrow> bool" where
  "isdigit s = (s \<noteq> [] \<and> list_all isdigit_char s)"

text \<open>The spec's wording for a well-formed phone: ASCII digits only.\<close>

definition spec_ascii_digit :: "nat \<Rightarrow> bool" where
  "spec_ascii_digit c = (cp CHR ''0'' \<le> c \<and> c \<le> cp CHR ''9'')"

definition spec_ascii_digits :: "str \<Rightarrow> bool" where
  "spec_ascii_digits s = list_all spec_ascii_digit s"

section \<open>Fields\<close>

text \<open>
  \<open>class Field\<close> holds one attribute, \<open>value\<close>; \<open>Name\<close>, \<open>Phone\<close> and
  \<open>Birthday\<close> are its subclasses and add no attribute. \<open>str(field)\<close> is the value.
\<close>

datatype Field = Field (field_value: str)

definition InvalidPhone :: str where
  "InvalidPhone = (lit ''Invalid phone number format. Must be 10 digits.'')"

text \<open>\<open>Phone.__init__\<close>: raises unless the value is all digits and of length 10.\<close>

definition Phone :: "str \<Rightarrow> py_error + Field" where
  "Phone v =
     (if \<not> isdigit v \<or> length v \<noteq> 10 then Inl (ValueError InvalidPhone)
      else Inr (Field v))"

section \<open>Dates: the standard library's calendar\<close>

text \<open>
  The program parses and compares dates with \<open>datetime\<close> of the standard library.
  The calendar functions follow \<open>Lib/datetime.py\<close>: \<open>_is_leap\<close>,
  \<open>_days_before_year\<close>, \<open>_days_in_month\<close>, \<open>_days_before_month\<close>,
  \<open>_ymd2ord\<close> and the range checks of the \<open>date\<close> constructor.
\<close>

definition is_leap :: "int \<Rightarrow> bool" where
  "is_leap year = (year mod 4 = 0 \<and> (year mod 100 \<noteq> 0 \<or> year mod 400 = 0))"

definition days_before_year :: "int \<Rightarrow> int" where
  "days_before_year year =
     (let y = year - 1 in y * 365 + y div 4 - y div 100 + y div 400)"

definition DAYS_IN_MONTH :: "int list" where
  "DAYS_IN_MONTH = [-1, 31, 28, 31, 30, 31, 30, 31, 31, 30, 31, 30, 31]"

definition DAYS_BEFORE_MONTH :: "int list" where
  "DAYS_BEFORE_MONTH = [-1, 0, 31, 59, 90, 120, 151, 181, 212, 243, 273, 304, 334]"

definition days_in_month :: "int \<Rightarrow> int \<Rightarrow> int" where
  "days_in_month year month =
     (if month = 2 \<and> is_leap year then 29 else DAYS_IN_MONTH ! nat month)"

definition days_before_month :: "int \<Rightarrow> int \<Rightarrow> int" where
  "days_before_month year month =
     DAYS_BEFORE_MONTH ! nat month + (if month > 2 \<and> is_leap year then 1 else 0)"

definition ymd2ord :: "int \<Rightarrow> int \<Rightarrow> int \<Rightarrow> int" where
  "ymd2ord year month day =
     days_before_year year + days_before_month year month + day"

definition MAXYEAR :: int where
  "MAXYEAR = 9999"

text \<open>
  The \<open>date\<close> constructor raises \<open>ValueError\<close> unless the year is in 1..9999, the
  month in 1..12 and the day in 1..days of that month. The month is tested before the
  table is read.
\<close>

definition check_date_fields :: "int \<Rightarrow> int \<Rightarrow> int \<Rightarrow> bool" where
  "check_date_fields year month day =
     (1 \<le> year \<and> year \<le> MAXYEAR \<and> 1 \<le> month \<and> month \<le> 12
      \<and> 1 \<le> day \<and> day \<le> days_in_month year month)"

text \<open>
  A naive \<open>datetime\<close> is held as the proleptic Gregorian ordinal of its date
  (\<open>toordinal()\<close>, 1 for 0001-01-01) and the microseconds since midnight of its time.
  Python compares two naive datetimes field by field, year first; on valid dates this is
  the order of the pairs (ordinal, time).
\<close>

record datetime =
  toordinal :: int
  time_us :: nat






subsection \<open>\<open>datetime.strptime(value, "%d.%m.%Y")\<close>\<close>

text \<open>
  \<open>_strptime\<close> turns the format into the regular expression
  \<^verbatim>\<open>(?P<d>3[0-1]|[1-2]\d|0[1-9]|[1-9]| [1-9])\.(?P<m>1[0-2]|0[1-9]|[1-9])\.(?P<Y>\d\d\d\d)\<close>
  and matches it at the start of the string, raises \<open>ValueError\<close> when there is no
  match or when text remains after the match, converts the three groups with \<open>int\<close>
  and builds the date, which raises \<open>ValueError\<close> for a date that does not exist.

  A matcher returns every way to match at the start of the string, as pairs (matched
  text, rest), in the order a backtracking engine tries them. The class \<^verbatim>\<open>\d\<close>
  is the decimal digits of Unicode; the literal characters and the ranges of the
  expression match ASCII characters only (the flag \<open>IGNORECASE\<close> adds none to them).
\<close>

definition is_char :: "char \<Rightarrow> nat \<Rightarrow> bool" where
  "is_char ch c = (c = cp ch)"

definition in_range :: "char \<Rightarrow> char \<Rightarrow> nat \<Rightarrow> bool" where
  "in_range lo hi c = (cp lo \<le> c \<and> c \<le> cp hi)"

fun re_seq :: "(nat \<Rightarrow> bool) list \<Rightarrow> str \<Rightarrow> (str \<times> str) list" where
  "re_seq [] s = [([], s)]"
| "re_seq (p # ps) [] = []"
| "re_seq (p # ps) (c # s) =
     (if p c then map (\<lambda>(g, r). (c # g, r)) (re_seq ps s) else [])"

definition re_d :: "str \<Rightarrow> (str \<times> str) list" where
  "re_d s =
     re_seq [is_char CHR ''3'', in_range CHR ''0'' CHR ''1''] s
     @ re_seq [in_range CHR ''1'' CHR ''2'', isdecimal_char] s
     @ re_seq [is_char CHR ''0'', in_range CHR ''1'' CHR ''9''] s
     @ re_seq [in_range CHR ''1'' CHR ''9''] s
     @ re_seq [is_char CHR '' '', in_range CHR ''1'' CHR ''9''] s"

definition re_m :: "str \<Rightarrow> (str \<times> str) list" where
  "re_m s =
     re_seq [is_char CHR ''1'', in_range CHR ''0'' CHR ''2''] s
     @ re_seq [is_char CHR ''0'', in_range CHR ''1'' CHR ''9''] s
     @ re_seq [in_range CHR ''1'' CHR ''9''] s"

definition re_Y :: "str \<Rightarrow> (str \<times> str) list" where
  "re_Y s = re_seq [isdecimal_char, isdecimal_char, isdecimal_char, isdecimal_char] s"

definition re_dot :: "str \<Rightarrow> (str \<times> str) list" where
  "re_dot s = re_seq [is_char CHR ''.''] s"

text \<open>The whole expression: the groups d, m, Y and the text after the match.\<close>

definition format_regex :: "str \<Rightarrow> (str \<times> str \<times> str \<times> str) list" where
  "format_regex s =
     [(d, m, y, r5). (d, r1) \<leftarrow> re_d s, (dot1, r2) \<leftarrow> re_dot r1, (m, r3) \<leftarrow> re_m r2,
                     (dot2, r4) \<leftarrow> re_dot r3, (y, r5) \<leftarrow> re_Y r4]"

text \<open>
  \<open>int(text)\<close> on a group of the expression: decimal digits, each with its value,
  after a leading space in the day.
\<close>

definition py_int :: "str \<Rightarrow> int" where
  "py_int s =
     int (foldl (\<lambda>a c. 10 * a + decimal_value c) 0 (dropWhile (is_char CHR '' '') s))"

text \<open>\<open>None\<close> stands for the \<open>ValueError\<close> that \<open>strptime\<close> raises.\<close>

definition strptime :: "str \<Rightarrow> datetime option" where
  "strptime data_string =
     (case format_regex data_string of
        [] \<Rightarrow> None
      | (d, m, y, rest) # others \<Rightarrow>
          if rest \<noteq> [] then None
          else if check_date_fields (py_int y) (py_int m) (py_int d)
               then Some \<lparr>toordinal = ymd2ord (py_int y) (py_int m) (py_int d), time_us = 0\<rparr>
               else None)"

definition InvalidDate :: str where
  "InvalidDate = (lit ''Invalid date format. Please use DD.MM.YYYY.'')"

text \<open>\<open>Birthday.__init__\<close> with \<open>validate\<close>: the value is stored as given.\<close>

definition Birthday :: "str \<Rightarrow> py_error + Field" where
  "Birthday v =
     (case strptime v of
        Some parsed \<Rightarrow> Inr (Field v)
      | None \<Rightarrow> Inl (ValueError InvalidDate))"

text \<open>
  The spec's wording for the accepted form: a two-digit day, a dot, a two-digit month, a
  dot, a four-digit year (DD.MM.YYYY), the digits being ASCII digits.
\<close>

definition spec_two_digit_form :: "str \<Rightarrow> bool" where
  "spec_two_digit_form s =
     (length s = 10
      \<and> list_all spec_ascii_digit [s ! 0, s ! 1, s ! 3, s ! 4, s ! 6, s ! 7, s ! 8, s ! 9]
      \<and> s ! 2 = cp CHR ''.'' \<and> s ! 5 = cp CHR ''.'')"

text \<open>
  The texts the parser takes for a day, a month and a year. Day: one ASCII digit 1..9,
  alone or after a zero or a space; or 1 or 2 and then any decimal digit; or 30 or 31.
  Month: one ASCII digit 1..9, alone or after a zero; or 10, 11, 12. Year: four decimal
  digits.
\<close>

definition day_text :: "str \<Rightarrow> bool" where
  "day_text d =
     (case d of
        [c] \<Rightarrow> in_range CHR ''1'' CHR ''9'' c
      | [c1, c2] \<Rightarrow>
          ((is_char CHR ''0'' c1 \<or> is_char CHR '' '' c1) \<and> in_range CHR ''1'' CHR ''9'' c2)
          \<or> (in_range CHR ''1'' CHR ''2'' c1 \<and> isdecimal_char c2)
          \<or> (is_char CHR ''3'' c1 \<and> in_range CHR ''0'' CHR ''1'' c2)
      | _ \<Rightarrow> False)"

definition month_text :: "str \<Rightarrow> bool" where
  "month_text m =
     (case m of
        [c] \<Rightarrow> in_range CHR ''1'' CHR ''9'' c
      | [c1, c2] \<Rightarrow>
          (is_char CHR ''0'' c1 \<and> in_range CHR ''1'' CHR ''9'' c2)
          \<or> (is_char CHR ''1'' c1 \<and> in_range CHR ''0'' CHR ''2'' c2)
      | _ \<Rightarrow> False)"

definition year_text :: "str \<Rightarrow> bool" where
  "year_text y = (length y = 4 \<and> list_all isdecimal_char y)"

section \<open>Record\<close>

text \<open>
  \<open>class Record\<close>: a name, the list of Phone objects in order, and a Birthday or
  \<open>None\<close>. A method that mutates the object returns its result together with the
  object after the call; a raised exception is the \<open>Inl\<close> result.
\<close>

record Record =
  name :: Field
  phones :: "Field list"
  birthday :: "Field option"

definition AlreadySet :: str where
  "AlreadySet = (lit ''Birthday already set.'')"

text \<open>
  \<open>Record.add_birthday\<close>. A Birthday object defines neither \<open>__bool__\<close> nor
  \<open>__len__\<close>, so \<open>not self.birthday\<close> holds exactly when the attribute is \<open>None\<close>.
\<close>

definition Record_add_birthday :: "Record \<Rightarrow> str \<Rightarrow> (py_error + unit) \<times> Record" where
  "Record_add_birthday r date =
     (case birthday r of
        None \<Rightarrow>
          (case Birthday date of
             Inl e \<Rightarrow> (Inl e, r)
           | Inr b \<Rightarrow> (Inr (), r\<lparr>birthday := Some b\<rparr>))
      | Some b \<Rightarrow> (Inl (ValueError AlreadySet), r))"

text \<open>\<open>Record.show_birthday\<close>.\<close>

definition Record_show_birthday :: "Record \<Rightarrow> str" where
  "Record_show_birthday r =
     (case birthday r of
        Some b \<Rightarrow> (lit ''Birthday: '') @ field_value b
      | None \<Rightarrow> (lit ''No birthday set.''))"

text \<open>
  \<open>Record.add_phone\<close>: the \<open>ValueError\<close> of the Phone constructor is caught and its
  message returned.
\<close>

definition add_phone :: "Record \<Rightarrow> str \<Rightarrow> (py_error + str) \<times> Record" where
  "add_phone r phone =
     (case Phone phone of
        Inr phone_obj \<Rightarrow>
          (Inr ((lit ''Phone '') @ field_value phone_obj @ (lit '' added.'')),
           r\<lparr>phones := phones r @ [phone_obj]\<rparr>)
      | Inl (ValueError msg) \<Rightarrow> (Inr msg, r)
      | Inl e \<Rightarrow> (Inl e, r))"

text \<open>
  \<open>Record.remove_phone\<close>: the loop returns at the first Phone with the value, after
  removing it from the list.
\<close>

fun remove_phone_loop :: "str \<Rightarrow> Field list \<Rightarrow> (Field list) option" where
  "remove_phone_loop phone [] = None"
| "remove_phone_loop phone (phone_obj # rest) =
     (if field_value phone_obj = phone then Some rest
      else map_option ((#) phone_obj) (remove_phone_loop phone rest))"

definition remove_phone :: "Record \<Rightarrow> str \<Rightarrow> str \<times> Record" where
  "remove_phone r phone =
     (case remove_phone_loop phone (phones r) of
        Some ps \<Rightarrow> ((lit ''Phone '') @ phone @ (lit '' removed.''), r\<lparr>phones := ps\<rparr>)
      | None \<Rightarrow> ((lit ''Phone '') @ phone @ (lit '' not found.''), r))"

text \<open>
  \<open>Record.edit_phone\<close>: at the first Phone with the old value the new Phone is
  constructed; it replaces the old one at its index, or the constructor's message is
  returned and the list is left as it is. \<open>None\<close> of the loop: no Phone has the old
  value.
\<close>

fun edit_phone_loop ::
  "str \<Rightarrow> str \<Rightarrow> Field list \<Rightarrow> ((py_error + str) \<times> Field list) option" where
  "edit_phone_loop old_phone new_phone [] = None"
| "edit_phone_loop old_phone new_phone (phone_obj # rest) =
     (if field_value phone_obj = old_phone then
        (case Phone new_phone of
           Inr new_phone_obj \<Rightarrow>
             Some (Inr ((lit ''Phone '') @ old_phone @ (lit '' edited to '') @ new_phone @ (lit ''.'')),
                   new_phone_obj # rest)
         | Inl (ValueError msg) \<Rightarrow> Some (Inr msg, phone_obj # rest)
         | Inl e \<Rightarrow> Some (Inl e, phone_obj # rest))
      else map_option (\<lambda>(res, ps). (res, phone_obj # ps))
             (edit_phone_loop old_phone new_phone rest))"

definition edit_phone :: "Record \<Rightarrow> str \<Rightarrow> str \<Rightarrow> (py_error + str) \<times> Record" where
  "edit_phone r old_phone new_phone =
     (case edit_phone_loop old_phone new_phone (phones r) of
        Some (res, ps) \<Rightarrow> (res, r\<lparr>phones := ps\<rparr>)
      | None \<Rightarrow> (Inr ((lit ''Phone '') @ old_phone @ (lit '' not found.'')), r))"

text \<open>\<open>Record.find_phone\<close>.\<close>

definition find_phone :: "Record \<Rightarrow> str \<Rightarrow> Field option" where
  "find_phone r phone = find (\<lambda>phone_obj. field_value phone_obj = phone) (phones r)"

text \<open>
  \<open>Record.__init__(name, phone=None, birthday=None)\<close>. \<open>if phone:\<close> is false for
  \<open>None\<close> and for the empty string. What \<open>add_phone\<close> returns is dropped.
\<close>

definition Record_init :: "str \<Rightarrow> str option \<Rightarrow> str option \<Rightarrow> py_error + Record" where
  "Record_init nm phone bday =
     (let r0 = \<lparr>name = Field nm, phones = [], birthday = None\<rparr>;
          after_phone =
            (case phone of
               None \<Rightarrow> Inr r0
             | Some p \<Rightarrow>
                 if p \<noteq> [] then
                   (case add_phone r0 p of
                      (Inl e, r) \<Rightarrow> Inl e
                    | (Inr dropped, r) \<Rightarrow> Inr r)
                 else Inr r0)
      in case after_phone of
           Inl e \<Rightarrow> Inl e
         | Inr r \<Rightarrow>
             (case bday of
                None \<Rightarrow> Inr r
              | Some d \<Rightarrow>
                  if d \<noteq> [] then
                    (case Record_add_birthday r d of
                       (Inl e, r') \<Rightarrow> Inl e
                     | (Inr u, r') \<Rightarrow> Inr r')
                  else Inr r))"

section \<open>AddressBook\<close>

text \<open>
  \<open>self.data\<close> is a dict keyed by name. A dict iterates in insertion order and
  assigning to a key it holds keeps the key's place, which is what \<open>AList.update\<close> does
  on an association list; \<open>map_of\<close> is the lookup.
\<close>

record AddressBook =
  data :: "(str \<times> Record) list"

definition AddressBook_init :: AddressBook where
  "AddressBook_init = \<lparr>data = []\<rparr>"

definition add_record :: "AddressBook \<Rightarrow> Record \<Rightarrow> AddressBook" where
  "add_record book record =
     book\<lparr>data := AList.update (field_value (name record)) record (data book)\<rparr>"

definition AddressBook_find :: "AddressBook \<Rightarrow> str \<Rightarrow> Record option" where
  "AddressBook_find book nm = map_of (data book) nm"

definition AddressBook_delete :: "AddressBook \<Rightarrow> str \<Rightarrow> str \<times> AddressBook" where
  "AddressBook_delete book nm =
     (if nm \<in> fst ` set (data book)
      then ((lit ''Contact '') @ nm @ (lit '' deleted.''), book\<lparr>data := AList.delete nm (data book)\<rparr>)
      else ((lit ''Contact '') @ nm @ (lit '' not found.''), book))"

text \<open>
  A Record found in the book is the object the dict holds: a method that mutates it
  changes the entry under its key, in place.
\<close>

definition mutate :: "AddressBook \<Rightarrow> str \<Rightarrow> Record \<Rightarrow> AddressBook" where
  "mutate book nm contact = book\<lparr>data := AList.update nm contact (data book)\<rparr>"






section \<open>Command handlers\<close>

text \<open>
  \<open>input_error\<close>: the decorated handler returns the handler's string, or the string
  the wrapper makes of the exception.
\<close>

definition input_error :: "py_error + str \<Rightarrow> str" where
  "input_error res =
     (case res of
        Inr s \<Rightarrow> s
      | Inl (ValueError msg) \<Rightarrow> msg
      | Inl KeyError \<Rightarrow> (lit ''Contact not found.'')
      | Inl IndexError \<Rightarrow> (lit ''Invalid command format.''))"

text \<open>
  A handler's body returns its result and the book after the call; the handler is the
  body under the wrapper.
\<close>

definition add_contact_body :: "str list \<Rightarrow> AddressBook \<Rightarrow> (py_error + str) \<times> AddressBook" where
  "add_contact_body args book =
     (case args of
        [nm, phone] \<Rightarrow>
          (case Record_init nm (Some phone) None of
             Inl e \<Rightarrow> (Inl e, book)
           | Inr record \<Rightarrow> (Inr (lit ''Contact added.''), add_record book record))
      | _ \<Rightarrow> (Inl (ValueError (lit ''Give me name and phone please.'')), book))"

definition add_contact :: "str list \<Rightarrow> AddressBook \<Rightarrow> str \<times> AddressBook" where
  "add_contact args book = map_prod input_error id (add_contact_body args book)"

text \<open>
  \<open>change_contact\<close>. In \<open>contact.phones[0] = Phone(new_phone)\<close> the right-hand side
  is evaluated first, then the assignment raises \<open>IndexError\<close> on an empty list. A
  Record defines neither \<open>__bool__\<close> nor \<open>__len__\<close>, so \<open>if contact:\<close> tests for
  \<open>None\<close>.
\<close>

definition change_contact_body :: "str list \<Rightarrow> AddressBook \<Rightarrow> (py_error + str) \<times> AddressBook" where
  "change_contact_body args book =
     (case args of
        [nm, new_phone] \<Rightarrow>
          (case AddressBook_find book nm of
             Some contact \<Rightarrow>
               (case Phone new_phone of
                  Inl e \<Rightarrow> (Inl e, book)
                | Inr new_phone_obj \<Rightarrow>
                    (case phones contact of
                       [] \<Rightarrow> (Inl IndexError, book)
                     | first # rest \<Rightarrow>
                         (Inr (lit ''Contact updated.''),
                          mutate book nm (contact\<lparr>phones := new_phone_obj # rest\<rparr>))))
           | None \<Rightarrow> (Inl KeyError, book))
      | _ \<Rightarrow> (Inl IndexError, book))"

definition change_contact :: "str list \<Rightarrow> AddressBook \<Rightarrow> str \<times> AddressBook" where
  "change_contact args book = map_prod input_error id (change_contact_body args book)"

text \<open>\<open>show_phone\<close>: an empty list is false.\<close>

definition show_phone_body :: "str list \<Rightarrow> AddressBook \<Rightarrow> (py_error + str) \<times> AddressBook" where
  "show_phone_body args book =
     (case args of
        [nm] \<Rightarrow>
          (case AddressBook_find book nm of
             Some contact \<Rightarrow>
               (case phones contact of
                  first # rest \<Rightarrow> (Inr (field_value first), book)
                | [] \<Rightarrow> (Inl KeyError, book))
           | None \<Rightarrow> (Inl KeyError, book))
      | _ \<Rightarrow> (Inl (ValueError (lit ''Enter the contact name.'')), book))"

definition show_phone :: "str list \<Rightarrow> AddressBook \<Rightarrow> str \<times> AddressBook" where
  "show_phone args book = map_prod input_error id (show_phone_body args book)"

text \<open>\<open>add_birthday\<close>: the handler catches the \<open>ValueError\<close> itself.\<close>

definition add_birthday_body :: "str list \<Rightarrow> AddressBook \<Rightarrow> (py_error + str) \<times> AddressBook" where
  "add_birthday_body args book =
     (case args of
        [nm, date] \<Rightarrow>
          (case AddressBook_find book nm of
             Some contact \<Rightarrow>
               (case Record_add_birthday contact date of
                  (Inr u, contact') \<Rightarrow>
                    (Inr ((lit ''Birthday added for '') @ nm @ (lit ''.'')), mutate book nm contact')
                | (Inl (ValueError msg), contact') \<Rightarrow> (Inr msg, mutate book nm contact')
                | (Inl e, contact') \<Rightarrow> (Inl e, mutate book nm contact'))
           | None \<Rightarrow> (Inr ((lit ''Contact '') @ nm @ (lit '' not found.'')), book))
      | _ \<Rightarrow>
          (Inr (lit ''Invalid command format. Use 'add_birthday [name] [DD.MM.YYYY]'.''), book))"

definition add_birthday :: "str list \<Rightarrow> AddressBook \<Rightarrow> str \<times> AddressBook" where
  "add_birthday args book = map_prod input_error id (add_birthday_body args book)"

text \<open>
  \<open>show_birthday\<close>. The unpacking \<open>name, = args\<close> raises \<open>ValueError\<close> when the list
  does not have exactly one element, with the interpreter's message (CPython 3.11).
\<close>

definition show_birthday_body :: "str list \<Rightarrow> AddressBook \<Rightarrow> (py_error + str) \<times> AddressBook" where
  "show_birthday_body args book =
     (case args of
        [] \<Rightarrow> (Inl (ValueError (lit ''not enough values to unpack (expected 1, got 0)'')), book)
      | [nm] \<Rightarrow>
          (case AddressBook_find book nm of
             Some contact \<Rightarrow> (Inr (Record_show_birthday contact), book)
           | None \<Rightarrow> (Inr ((lit ''Contact '') @ nm @ (lit '' not found.'')), book))
      | _ \<Rightarrow> (Inl (ValueError (lit ''too many values to unpack (expected 1)'')), book))"

definition show_birthday :: "str list \<Rightarrow> AddressBook \<Rightarrow> str \<times> AddressBook" where
  "show_birthday args book = map_prod input_error id (show_birthday_body args book)"

section \<open>The states the operations reach\<close>

text \<open>
  A Record comes from the constructor and is then changed by its methods. A book starts
  empty and is changed by \<open>add_record\<close> and \<open>delete\<close>, by the handlers, and by the
  methods called on a Record found in it.
\<close>

inductive reachable_record :: "Record \<Rightarrow> bool" where
  constructed: "Record_init nm phone bday = Inr r \<Longrightarrow> reachable_record r"
| after_add_phone: "reachable_record r \<Longrightarrow> reachable_record (snd (add_phone r phone))"
| after_edit_phone:
    "reachable_record r \<Longrightarrow> reachable_record (snd (edit_phone r old_phone new_phone))"
| after_remove_phone: "reachable_record r \<Longrightarrow> reachable_record (snd (remove_phone r phone))"
| after_add_birthday:
    "reachable_record r \<Longrightarrow> reachable_record (snd (Record_add_birthday r date))"

inductive reachable :: "AddressBook \<Rightarrow> bool" where
  initial: "reachable AddressBook_init"
| by_add_record: "reachable book \<Longrightarrow> reachable_record r \<Longrightarrow> reachable (add_record book r)"
| by_delete: "reachable book \<Longrightarrow> reachable (snd (AddressBook_delete book nm))"
| by_add_contact: "reachable book \<Longrightarrow> reachable (snd (add_contact args book))"
| by_change_contact: "reachable book \<Longrightarrow> reachable (snd (change_contact args book))"
| by_show_phone: "reachable book \<Longrightarrow> reachable (snd (show_phone args book))"
| by_add_birthday: "reachable book \<Longrightarrow> reachable (snd (add_birthday args book))"
| by_show_birthday: "reachable book \<Longrightarrow> reachable (snd (show_birthday args book))"
| by_add_phone:
    "reachable book \<Longrightarrow> AddressBook_find book nm = Some r \<Longrightarrow>
       reachable (mutate book nm (snd (add_phone r phone)))"
| by_edit_phone:
    "reachable book \<Longrightarrow> AddressBook_find book nm = Some r \<Longrightarrow>
       reachable (mutate book nm (snd (edit_phone r old_phone new_phone)))"
| by_remove_phone:
    "reachable book \<Longrightarrow> AddressBook_find book nm = Some r \<Longrightarrow>
       reachable (mutate book nm (snd (remove_phone r phone)))"

text \<open>The format invariant of the stored phones.\<close>

definition phone_ok :: "Field \<Rightarrow> bool" where
  "phone_ok p = (isdigit (field_value p) \<and> length (field_value p) = 10)"

definition phones_ok :: "Record \<Rightarrow> bool" where
  "phones_ok r = list_all phone_ok (phones r)"

definition book_ok :: "AddressBook \<Rightarrow> bool" where
  "book_ok book = list_all (\<lambda>(k, r). phones_ok r) (data book)"


section \<open>The digit classes on ASCII\<close>

lemma DECIMAL_BLOCKS_split: "DECIMAL_BLOCKS = 48 # tl DECIMAL_BLOCKS"
  by (simp add: DECIMAL_BLOCKS_def)

lemma DECIMAL_BLOCKS_tail: "list_all (\<lambda>b. 1632 \<le> b) (tl DECIMAL_BLOCKS)"
  by (simp add: DECIMAL_BLOCKS_def)

lemma DIGIT_ONLY_RANGES_high: "list_all (\<lambda>(lo, hi). 128 \<le> lo) DIGIT_ONLY_RANGES"
  by (simp add: DIGIT_ONLY_RANGES_def)

lemma decimal_block_tail_None:
  "c < 1632 \<Longrightarrow> find (\<lambda>b. b \<le> c \<and> c < b + 10) (tl DECIMAL_BLOCKS) = None"
  using DECIMAL_BLOCKS_tail by (auto simp: find_None_iff list_all_iff)

lemma decimal_block_ascii: "48 \<le> c \<Longrightarrow> c \<le> 57 \<Longrightarrow> decimal_block c = Some 48"
  unfolding decimal_block_def by (subst DECIMAL_BLOCKS_split) simp

lemma decimal_block_low: "c < 48 \<or> (57 < c \<and> c < 1632) \<Longrightarrow> decimal_block c = None"
  unfolding decimal_block_def
  by (subst DECIMAL_BLOCKS_split) (auto simp: decimal_block_tail_None)

lemma isdecimal_char_ascii: "c < 128 \<Longrightarrow> isdecimal_char c = spec_ascii_digit c"
proof (cases "48 \<le> c \<and> c \<le> 57")
  case True
  then show ?thesis by (simp add: isdecimal_char_def decimal_block_ascii spec_ascii_digit_def)
next
  case False
  assume "c < 128"
  with False have "c < 48 \<or> (57 < c \<and> c < 1632)" by arith
  from decimal_block_low [OF this] False show ?thesis
    by (simp add: isdecimal_char_def spec_ascii_digit_def)
qed

lemma digit_only_high: "c < 128 \<Longrightarrow> \<not> list_ex (\<lambda>(lo, hi). lo \<le> c \<and> c \<le> hi) DIGIT_ONLY_RANGES"
  using DIGIT_ONLY_RANGES_high by (auto simp: list_all_iff list_ex_iff)

lemma isdigit_char_ascii: "c < 128 \<Longrightarrow> isdigit_char c = spec_ascii_digit c"
  by (simp add: isdigit_char_def isdecimal_char_ascii digit_only_high)

lemma ascii_digit_decimal: "spec_ascii_digit c \<Longrightarrow> isdecimal_char c \<and> decimal_value c = c - 48"
  by (simp add: spec_ascii_digit_def isdecimal_char_def decimal_value_def decimal_block_ascii)

lemma not_decimal_dot: "\<not> isdecimal_char 46"
  by (simp add: isdecimal_char_def decimal_block_low)

lemma isdigit_char_B2: "isdigit_char 178"
  by (simp add: isdigit_char_def DIGIT_ONLY_RANGES_def)

lemma decimal_not_dot: "isdecimal_char c \<Longrightarrow> c \<noteq> 46"
  using not_decimal_dot by auto

lemma decimal_value_ascii: "48 \<le> c \<Longrightarrow> c \<le> 57 \<Longrightarrow> decimal_value c = c - 48"
  by (simp add: decimal_value_def decimal_block_ascii)

lemma isdecimal_char_digit: "48 \<le> c \<Longrightarrow> c \<le> 57 \<Longrightarrow> isdecimal_char c"
  by (simp add: isdecimal_char_def decimal_block_ascii)

lemma isdigit_ascii_string:
  "list_all (\<lambda>c. c < 128) s \<Longrightarrow> list_all isdigit_char s = spec_ascii_digits s"
  unfolding spec_ascii_digits_def
  by (induction s) (simp_all add: isdigit_char_ascii)

section \<open>Phone construction\<close>

lemma Phone_Inr_iff:
  "(Phone s = Inr p) = (length s = 10 \<and> list_all isdigit_char s \<and> p = Field s)"
  by (auto simp: Phone_def isdigit_def)

lemma Phone_Inl_iff:
  "(Phone s = Inl e) =
     (\<not> (length s = 10 \<and> list_all isdigit_char s) \<and> e = ValueError InvalidPhone)"
  by (auto simp: Phone_def isdigit_def)

text \<open>
  C3, as the claim states it, fails: the string of ten superscript twos (U+00B2) has
  length 10, \<open>isdigit\<close> accepts it, and so the Phone is constructed, although no
  character of it is an ASCII digit.
\<close>

theorem C3_counterexample:
  "Phone [0xB2, 0xB2, 0xB2, 0xB2, 0xB2, 0xB2, 0xB2, 0xB2, 0xB2, 0xB2]
     = Inr (Field [0xB2, 0xB2, 0xB2, 0xB2, 0xB2, 0xB2, 0xB2, 0xB2, 0xB2, 0xB2])
   \<and> \<not> spec_ascii_digits [0xB2, 0xB2, 0xB2, 0xB2, 0xB2, 0xB2, 0xB2, 0xB2, 0xB2, 0xB2]"
  by (simp add: Phone_def isdigit_def isdigit_char_B2 spec_ascii_digits_def
      spec_ascii_digit_def)

text \<open>
  C3, amended: Phone construction succeeds if and only if the string has length exactly
  10 and every character is a digit character in the sense of \<open>str.isdigit\<close>; on
  success the Phone's value is the input string, otherwise construction fails with the
  InvalidFormat error. For a string of ASCII characters this is the claim as written:
  construction succeeds if and only if the string consists of ASCII digits and has
  length 10.
\<close>

theorem C3_Phone_construction:
  "(length s = 10 \<and> list_all isdigit_char s \<longrightarrow> Phone s = Inr (Field s))
   \<and> (\<not> (length s = 10 \<and> list_all isdigit_char s)
        \<longrightarrow> Phone s = Inl (ValueError InvalidPhone))
   \<and> (list_all (\<lambda>c. c < 128) s
        \<longrightarrow> ((\<exists>p. Phone s = Inr p) \<longleftrightarrow> (spec_ascii_digits s \<and> length s = 10)))"
  using isdigit_ascii_string [of s]
  by (auto simp: Phone_Inr_iff Phone_def isdigit_def)

theorem C3_Phone_construction_witness:
  "Phone (lit ''0123456789'') = Inr (Field (lit ''0123456789''))
   \<and> Phone (lit ''12345'') = Inl (ValueError InvalidPhone)
   \<and> Phone (lit ''12345abcde'') = Inl (ValueError InvalidPhone)"
proof -
  have a: "length (lit ''0123456789'') = 10 \<and> list_all isdigit_char (lit ''0123456789'')"
    by (simp add: isdigit_char_ascii spec_ascii_digit_def)
  have b: "\<not> (length (lit ''12345'') = 10 \<and> list_all isdigit_char (lit ''12345''))"
    by simp
  have c: "\<not> (length (lit ''12345abcde'') = 10 \<and> list_all isdigit_char (lit ''12345abcde''))"
    by (simp add: isdigit_char_ascii spec_ascii_digit_def)
  show ?thesis
    using a b c C3_Phone_construction [of "lit ''0123456789''"]
      C3_Phone_construction [of "lit ''12345''"] C3_Phone_construction [of "lit ''12345abcde''"]
    by blast
qed

section \<open>Birthday construction\<close>

lemma re_seq_sound:
  "(g, r) \<in> set (re_seq ps s) \<Longrightarrow> s = g @ r \<and> list_all2 (\<lambda>p c. p c) ps g"
proof (induction ps s arbitrary: g rule: re_seq.induct)
  case (1 s)
  then show ?case by simp
next
  case (2 p ps)
  then show ?case by simp
next
  case (3 p ps c s)
  then show ?case by (auto split: if_splits)
qed

lemma re_d_sound: "(d, r) \<in> set (re_d s) \<Longrightarrow> s = d @ r \<and> day_text d"
  unfolding re_d_def
  by (auto dest!: re_seq_sound simp: day_text_def list_all2_Cons1)

lemma re_m_sound: "(m, r) \<in> set (re_m s) \<Longrightarrow> s = m @ r \<and> month_text m"
  unfolding re_m_def
  by (auto dest!: re_seq_sound simp: month_text_def list_all2_Cons1)

lemma re_Y_sound: "(y, r) \<in> set (re_Y s) \<Longrightarrow> s = y @ r \<and> year_text y"
  unfolding re_Y_def
  by (auto dest!: re_seq_sound simp: year_text_def list_all2_Cons1)

lemma re_dot_sound: "(g, r) \<in> set (re_dot s) \<Longrightarrow> s = (lit ''.'') @ r"
  unfolding re_dot_def
  by (auto dest!: re_seq_sound simp: list_all2_Cons1 is_char_def)

lemma format_regex_sound:
  "(d, m, y, r) \<in> set (format_regex s) \<Longrightarrow>
     s = d @ (lit ''.'') @ m @ (lit ''.'') @ y @ r \<and> day_text d \<and> month_text m \<and> year_text y"
  unfolding format_regex_def
  by (auto dest!: re_d_sound re_m_sound re_Y_sound re_dot_sound)

lemma re_d_complete:
  "day_text d \<Longrightarrow>
     concat (map (\<lambda>(d', r1). concat (map (\<lambda>(dot, r2). F d' r2) (re_dot r1)))
                 (re_d (d @ 46 # r))) = F d r"
  unfolding day_text_def re_d_def re_dot_def
  by (auto simp: in_range_def is_char_def not_decimal_dot dest: decimal_not_dot
      split: list.splits)

lemma re_m_complete:
  "month_text m \<Longrightarrow>
     concat (map (\<lambda>(m', r1). concat (map (\<lambda>(dot, r2). F m' r2) (re_dot r1)))
                 (re_m (m @ 46 # r))) = F m r"
  unfolding month_text_def re_m_def re_dot_def
  by (auto simp: in_range_def is_char_def split: list.splits)

lemma re_Y_complete: "year_text y \<Longrightarrow> re_Y (y @ r) = [(y, r)]"
  unfolding year_text_def re_Y_def
  by (auto simp: length_Suc_conv numeral_eq_Suc)

lemma format_regex_complete:
  "day_text d \<Longrightarrow> month_text m \<Longrightarrow> year_text y \<Longrightarrow>
     format_regex (d @ (lit ''.'') @ m @ (lit ''.'') @ y @ r) = [(d, m, y, r)]"
  unfolding format_regex_def
  by (simp add: re_d_complete re_m_complete re_Y_complete)


lemma strptime_Some_iff:
  "(\<exists>dt. strptime s = Some dt) \<longleftrightarrow>
     (\<exists>d m y. s = d @ (lit ''.'') @ m @ (lit ''.'') @ y \<and> day_text d \<and> month_text m \<and> year_text y
        \<and> check_date_fields (py_int y) (py_int m) (py_int d))"
proof
  assume "\<exists>dt. strptime s = Some dt"
  then obtain d m y others where
    fr: "format_regex s = (d, m, y, []) # others"
    and ok: "check_date_fields (py_int y) (py_int m) (py_int d)"
    by (auto simp: strptime_def split: list.splits if_splits)
  from fr have "(d, m, y, []) \<in> set (format_regex s)" by simp
  from format_regex_sound [OF this] ok
  show "\<exists>d m y. s = d @ (lit ''.'') @ m @ (lit ''.'') @ y \<and> day_text d \<and> month_text m \<and> year_text y
        \<and> check_date_fields (py_int y) (py_int m) (py_int d)"
    by auto
next
  assume "\<exists>d m y. s = d @ (lit ''.'') @ m @ (lit ''.'') @ y \<and> day_text d \<and> month_text m \<and> year_text y
        \<and> check_date_fields (py_int y) (py_int m) (py_int d)"
  then obtain d m y where s: "s = d @ (lit ''.'') @ m @ (lit ''.'') @ y"
    and t: "day_text d" "month_text m" "year_text y"
    and ok: "check_date_fields (py_int y) (py_int m) (py_int d)"
    by blast
  from format_regex_complete [OF t, of "[]"] s
  have "format_regex s = [(d, m, y, [])]" by simp
  with ok show "\<exists>dt. strptime s = Some dt"
    by (simp add: strptime_def)
qed

lemma strptime_accepts:
  "day_text d \<Longrightarrow> month_text m \<Longrightarrow> year_text y \<Longrightarrow>
   check_date_fields (py_int y) (py_int m) (py_int d) \<Longrightarrow>
     strptime (d @ lit ''.'' @ m @ lit ''.'' @ y)
       = Some \<lparr>toordinal = ymd2ord (py_int y) (py_int m) (py_int d), time_us = 0\<rparr>"
  using format_regex_complete [of d m y "[]"] by (simp add: strptime_def)

lemma two_digit_texts:
  assumes "spec_two_digit_form s"
  shows "\<exists>a b c d y. s = [a, b] @ (lit ''.'') @ [c, d] @ (lit ''.'') @ y \<and> year_text y
      \<and> list_all spec_ascii_digit [a, b, c, d]
      \<and> take 2 s = [a, b] \<and> take 2 (drop 3 s) = [c, d] \<and> drop 6 s = y"
proof -
  from assms have len: "length s = 10" by (simp add: spec_two_digit_form_def)
  then obtain c0 c1 c2 c3 c4 c5 c6 c7 c8 c9 where s: "s = [c0, c1, c2, c3, c4, c5, c6, c7, c8, c9]"
    by (auto simp: length_Suc_conv numeral_eq_Suc)
  with assms show ?thesis
    by (simp add: spec_two_digit_form_def year_text_def spec_ascii_digit_def
        isdecimal_char_digit)
qed

lemma days_in_month_le: "1 \<le> m \<Longrightarrow> m \<le> 12 \<Longrightarrow> days_in_month y m \<le> 31"
proof -
  assume "1 \<le> m" "m \<le> 12"
  then have "m = 1 \<or> m = 2 \<or> m = 3 \<or> m = 4 \<or> m = 5 \<or> m = 6 \<or> m = 7 \<or> m = 8 \<or> m = 9
      \<or> m = 10 \<or> m = 11 \<or> m = 12" by arith
  then show ?thesis
    by (auto simp: days_in_month_def DAYS_IN_MONTH_def)
qed

lemma py_int_two_digits:
  "spec_ascii_digit a \<Longrightarrow> spec_ascii_digit b \<Longrightarrow>
     py_int [a, b] = int (10 * (a - 48) + (b - 48))"
  by (auto simp: py_int_def spec_ascii_digit_def is_char_def decimal_value_ascii)

lemma day_text_two_digits:
  assumes "spec_ascii_digit a" "spec_ascii_digit b" "1 \<le> py_int [a, b]" "py_int [a, b] \<le> 31"
  shows "day_text [a, b]"
  using assms unfolding py_int_two_digits [OF assms(1,2)]
  by (simp add: day_text_def in_range_def is_char_def spec_ascii_digit_def
      isdecimal_char_digit) arith

lemma month_text_two_digits:
  assumes "spec_ascii_digit a" "spec_ascii_digit b" "1 \<le> py_int [a, b]" "py_int [a, b] \<le> 12"
  shows "month_text [a, b]"
  using assms unfolding py_int_two_digits [OF assms(1,2)]
  by (simp add: month_text_def in_range_def is_char_def spec_ascii_digit_def) arith

lemma two_digit_unique:
  assumes "spec_two_digit_form s" "s = d @ (lit ''.'') @ m @ (lit ''.'') @ y" "day_text d" "month_text m"
  shows "d = take 2 s \<and> m = take 2 (drop 3 s) \<and> y = drop 6 s"
proof -
  from two_digit_texts [OF assms(1)] obtain a b c e y' where
    s: "s = [a, b] @ (lit ''.'') @ [c, e] @ (lit ''.'') @ y'" and dig: "list_all spec_ascii_digit [a, b, c, e]"
    by blast
  from dig have nd: "b \<noteq> 46" "e \<noteq> 46"
    by (auto simp: spec_ascii_digit_def)
  from assms(3) nd(1) s assms(2) have d: "d = [a, b]"
    by (auto simp: day_text_def split: list.splits)
  from assms(4) nd(2) s assms(2) d have m: "m = [c, e]"
    by (auto simp: month_text_def split: list.splits)
  from s assms(2) d m show ?thesis by simp
qed

lemma Birthday_Inr_iff: "(Birthday s = Inr b) = ((\<exists>dt. strptime s = Some dt) \<and> b = Field s)"
  by (auto simp: Birthday_def split: option.splits)

lemma Birthday_Inl_iff:
  "(Birthday s = Inl e) = (strptime s = None \<and> e = ValueError InvalidDate)"
  by (auto simp: Birthday_def split: option.splits)

text \<open>
  C4, amended: Birthday construction succeeds if and only if the string is a day text, a
  dot, a month text, a dot and a year text, and the three numbers are a date of the
  calendar with a year from 1 to 9999. The day is one ASCII digit 1 to 9, alone or after
  a zero or a space, or 1 or 2 followed by a decimal digit, or 30 or 31; the month is one
  ASCII digit 1 to 9, alone or after a zero, or 10, 11 or 12; the year is four decimal
  digits; a decimal digit is any Unicode decimal digit, read with its value. On success
  the stored value is the input string unchanged; every other string fails with the
  InvalidFormat error. For a string in the form of the claim (two ASCII digits, a dot,
  two ASCII digits, a dot, four ASCII digits) construction succeeds if and only if the
  numbers are such a date.
\<close>

theorem C4_Birthday_construction:
  "((\<exists>b. Birthday s = Inr b) \<longleftrightarrow>
      (\<exists>d m y. s = d @ (lit ''.'') @ m @ (lit ''.'') @ y \<and> day_text d \<and> month_text m \<and> year_text y
         \<and> check_date_fields (py_int y) (py_int m) (py_int d)))
   \<and> (\<forall>b. Birthday s = Inr b \<longrightarrow> b = Field s)
   \<and> ((\<nexists>b. Birthday s = Inr b) \<longrightarrow> Birthday s = Inl (ValueError InvalidDate))
   \<and> (spec_two_digit_form s \<longrightarrow>
        ((\<exists>b. Birthday s = Inr b) \<longleftrightarrow>
           check_date_fields (py_int (drop 6 s)) (py_int (take 2 (drop 3 s))) (py_int (take 2 s))))"
proof (intro conjI impI allI)
  show form: "(\<exists>b. Birthday s = Inr b) \<longleftrightarrow>
      (\<exists>d m y. s = d @ (lit ''.'') @ m @ (lit ''.'') @ y \<and> day_text d \<and> month_text m \<and> year_text y
         \<and> check_date_fields (py_int y) (py_int m) (py_int d))"
    by (simp add: Birthday_Inr_iff strptime_Some_iff)
  show "b = Field s" if "Birthday s = Inr b" for b
    using that by (simp add: Birthday_Inr_iff)
  show "Birthday s = Inl (ValueError InvalidDate)" if "\<nexists>b. Birthday s = Inr b"
    using that by (simp add: Birthday_Inr_iff Birthday_Inl_iff)
  show "(\<exists>b. Birthday s = Inr b) \<longleftrightarrow>
      check_date_fields (py_int (drop 6 s)) (py_int (take 2 (drop 3 s))) (py_int (take 2 s))"
    if two: "spec_two_digit_form s"
  proof
    assume "\<exists>b. Birthday s = Inr b"
    with form obtain d m y where
      "s = d @ (lit ''.'') @ m @ (lit ''.'') @ y" "day_text d" "month_text m"
      "check_date_fields (py_int y) (py_int m) (py_int d)"
      by blast
    with two_digit_unique [OF two this(1,2,3)]
    show "check_date_fields (py_int (drop 6 s)) (py_int (take 2 (drop 3 s))) (py_int (take 2 s))"
      by simp
  next
    assume ok: "check_date_fields (py_int (drop 6 s)) (py_int (take 2 (drop 3 s))) (py_int (take 2 s))"
    from two_digit_texts [OF two] obtain a b c e y where
      s: "s = [a, b] @ (lit ''.'') @ [c, e] @ (lit ''.'') @ y" and y: "year_text y"
      and dig: "list_all spec_ascii_digit [a, b, c, e]"
      and pos: "take 2 s = [a, b]" "take 2 (drop 3 s) = [c, e]" "drop 6 s = y"
      by blast
    from ok pos have ok': "check_date_fields (py_int y) (py_int [c, e]) (py_int [a, b])"
      by simp
    then have m: "1 \<le> py_int [c, e]" "py_int [c, e] \<le> 12"
      and d: "1 \<le> py_int [a, b]" "py_int [a, b] \<le> days_in_month (py_int y) (py_int [c, e])"
      by (simp_all add: check_date_fields_def)
    from d(2) days_in_month_le [OF m] have "py_int [a, b] \<le> 31"
      by (rule order_trans)
    with dig d(1) have "day_text [a, b]"
      by (simp add: day_text_two_digits)
    moreover from dig m have "month_text [c, e]"
      by (simp add: month_text_two_digits)
    ultimately show "\<exists>b. Birthday s = Inr b"
      using form s y ok' by blast
  qed
qed

lemma py_int_examples:
  "py_int (lit ''29'') = 29" "py_int (lit ''02'') = 2" "py_int (lit ''2000'') = 2000"
  "py_int (lit ''1900'') = 1900" "py_int (lit ''1'') = 1" "py_int (lit '' 5'') = 5"
  "py_int [0x662, 0x660, 0x660, 0x660] = 2000"
  by (simp_all add: py_int_def is_char_def decimal_value_def decimal_block_def
      DECIMAL_BLOCKS_def)

theorem C4_Birthday_construction_witness:
  "Birthday (lit ''29.02.2000'') = Inr (Field (lit ''29.02.2000''))
   \<and> Birthday (lit ''29.02.1900'') = Inl (ValueError InvalidDate)
   \<and> Birthday (lit '' 5.1.'' @ [0x662, 0x660, 0x660, 0x660])
       = Inr (Field (lit '' 5.1.'' @ [0x662, 0x660, 0x660, 0x660]))"
proof -
  have a: "spec_two_digit_form (lit ''29.02.2000'')" "spec_two_digit_form (lit ''29.02.1900'')"
    by (simp_all add: spec_two_digit_form_def spec_ascii_digit_def)
  have b: "check_date_fields (py_int (drop 6 (lit ''29.02.2000'')))
             (py_int (take 2 (drop 3 (lit ''29.02.2000'')))) (py_int (take 2 (lit ''29.02.2000'')))"
    using py_int_examples [simplified]
    by (simp add: check_date_fields_def MAXYEAR_def days_in_month_def is_leap_def)
  have c: "\<not> check_date_fields (py_int (drop 6 (lit ''29.02.1900'')))
             (py_int (take 2 (drop 3 (lit ''29.02.1900'')))) (py_int (take 2 (lit ''29.02.1900'')))"
    using py_int_examples [simplified]
    by (simp add: check_date_fields_def MAXYEAR_def days_in_month_def is_leap_def
        DAYS_IN_MONTH_def)
  have d: "\<exists>d m y. lit '' 5.1.'' @ [0x662, 0x660, 0x660, 0x660] = d @ lit ''.'' @ m @ lit ''.'' @ y
      \<and> day_text d \<and> month_text m \<and> year_text y
      \<and> check_date_fields (py_int y) (py_int m) (py_int d)"
  proof (intro exI conjI)
    show "lit '' 5.1.'' @ [0x662, 0x660, 0x660, 0x660]
        = lit '' 5'' @ lit ''.'' @ lit ''1'' @ lit ''.'' @ [0x662, 0x660, 0x660, 0x660]"
      by simp
    show "day_text (lit '' 5'')" by (simp add: day_text_def in_range_def is_char_def)
    show "month_text (lit ''1'')" by (simp add: month_text_def in_range_def)
    show "year_text [0x662, 0x660, 0x660, 0x660]"
      by (simp add: year_text_def isdecimal_char_def decimal_block_def DECIMAL_BLOCKS_def)
    show "check_date_fields (py_int [0x662, 0x660, 0x660, 0x660]) (py_int (lit ''1''))
        (py_int (lit '' 5''))"
      by (simp add: py_int_examples [simplified] check_date_fields_def MAXYEAR_def days_in_month_def
          DAYS_IN_MONTH_def)
  qed
  from a b c d C4_Birthday_construction [of "lit ''29.02.2000''"]
    C4_Birthday_construction [of "lit ''29.02.1900''"]
    C4_Birthday_construction [of "lit '' 5.1.'' @ [0x662, 0x660, 0x660, 0x660]"]
  show ?thesis by blast
qed

text \<open>
  C4, as the claim states it, fails: the parser takes a day and a month written in one
  digit, so \<open>1.1.2000\<close> constructs a Birthday although it has no two-digit day.
\<close>

theorem C4_counterexample:
  "Birthday (lit ''1.1.2000'') = Inr (Field (lit ''1.1.2000''))
   \<and> \<not> spec_two_digit_form (lit ''1.1.2000'')"
proof -
  have "strptime (lit ''1'' @ lit ''.'' @ lit ''1'' @ lit ''.'' @ lit ''2000'')
      = Some \<lparr>toordinal = ymd2ord (py_int (lit ''2000'')) (py_int (lit ''1'')) (py_int (lit ''1'')),
              time_us = 0\<rparr>"
    by (rule strptime_accepts)
       (simp_all add: day_text_def month_text_def year_text_def in_range_def
         isdecimal_char_digit py_int_examples [simplified] check_date_fields_def MAXYEAR_def
         days_in_month_def DAYS_IN_MONTH_def)
  then show ?thesis
    by (simp add: Birthday_def spec_two_digit_form_def)
qed


section \<open>Record operations\<close>

text \<open>
  C5: on a Record whose Birthday is set, \<open>add_birthday\<close> with any argument raises the
  AlreadySet error (\<open>ValueError\<close> with the message "Birthday already set.") and the
  Record, with its stored Birthday, is as before.
\<close>

theorem C5_add_birthday_twice:
  "birthday r = Some b \<Longrightarrow>
     Record_add_birthday r date = (Inl (ValueError AlreadySet), r)"
  by (simp add: Record_add_birthday_def)

theorem C5_add_birthday_twice_witness:
  "birthday \<lparr>name = Field (lit ''jane''), phones = [], birthday = Some (Field (lit ''05.05.1990''))\<rparr>
     = Some (Field (lit ''05.05.1990''))
   \<and> Record_add_birthday
        \<lparr>name = Field (lit ''jane''), phones = [], birthday = Some (Field (lit ''05.05.1990''))\<rparr>
        (lit ''01.01.2000'')
     = (Inl (ValueError AlreadySet),
        \<lparr>name = Field (lit ''jane''), phones = [], birthday = Some (Field (lit ''05.05.1990''))\<rparr>)"
  using C5_add_birthday_twice
    [of "\<lparr>name = Field (lit ''jane''), phones = [], birthday = Some (Field (lit ''05.05.1990''))\<rparr>"
        "Field (lit ''05.05.1990'')" "(lit ''01.01.2000'')"]
  by simp




section \<open>AddressBook operations\<close>

text \<open>
  C7: after \<open>add_record\<close>, \<open>find\<close> with the record's name returns that Record; and for
  two Records with the same name, adding the second after the first leaves the book that
  adding the second alone gives, so \<open>find\<close> returns the second Record. \<open>add_record\<close>
  has no failure.
\<close>

theorem C7_add_record_find:
  "AddressBook_find (add_record book r) (field_value (name r)) = Some r
   \<and> (field_value (name r2) = field_value (name r1) \<longrightarrow>
        add_record (add_record book r1) r2 = add_record book r2
        \<and> AddressBook_find (add_record (add_record book r1) r2) (field_value (name r1)) = Some r2)"
  by (simp add: AddressBook_find_def add_record_def update_conv')

section \<open>Handlers\<close>

lemma add_contact_two:
  "add_contact [nm, phone] book =
     ((lit ''Contact added.''),
      add_record book
        \<lparr>name = Field nm,
         phones = (if isdigit phone \<and> length phone = 10 then [Field phone] else []),
         birthday = None\<rparr>)"
  by (simp add: add_contact_def add_contact_body_def Record_init_def add_phone_def Phone_def
      input_error_def isdigit_def Let_def)

text \<open>
  C2 does not hold of the code: the constructor drops what \<open>add_phone\<close> returns, so the
  add handler, called with a name and the malformed phone \<open>123\<close>, returns "Contact
  added." and stores a Record with no phone, while \<open>add_phone\<close> itself returns the
  validation message.
\<close>

theorem C2_add_contact_malformed:
  "add_contact [(lit ''bob''), (lit ''123'')] AddressBook_init
     = ((lit ''Contact added.''),
        \<lparr>data = [((lit ''bob''), \<lparr>name = Field (lit ''bob''), phones = [], birthday = None\<rparr>)]\<rparr>)
   \<and> fst (add_phone \<lparr>name = Field (lit ''bob''), phones = [], birthday = None\<rparr> (lit ''123''))
     = Inr InvalidPhone"
  by (simp add: add_contact_two add_record_def AddressBook_init_def add_phone_def Phone_def)

theorem C7_add_record_find_witness:
  "AddressBook_find
     (add_record (add_record AddressBook_init
        \<lparr>name = Field (lit ''jane''), phones = [Field (lit ''1234567890'')], birthday = None\<rparr>)
        \<lparr>name = Field (lit ''jane''), phones = [], birthday = Some (Field (lit ''05.05.1990''))\<rparr>)
     (lit ''jane'')
   = Some \<lparr>name = Field (lit ''jane''), phones = [], birthday = Some (Field (lit ''05.05.1990''))\<rparr>"
  using C7_add_record_find
    [of AddressBook_init
        "\<lparr>name = Field (lit ''jane''), phones = [], birthday = Some (Field (lit ''05.05.1990''))\<rparr>"
        "\<lparr>name = Field (lit ''jane''), phones = [], birthday = Some (Field (lit ''05.05.1990''))\<rparr>"
        "\<lparr>name = Field (lit ''jane''), phones = [Field (lit ''1234567890'')], birthday = None\<rparr>"]
  by simp

text \<open>
  C9, as the claim states it, fails: with no argument the unpacking in \<open>show_birthday\<close>
  raises \<open>ValueError\<close>, not an error of the \<open>IndexError\<close> class, and the wrapper
  returns the message of that error.
\<close>

theorem C9_counterexample:
  "show_birthday_body [] AddressBook_init
     = (Inl (ValueError (lit ''not enough values to unpack (expected 1, got 0)'')), AddressBook_init)
   \<and> show_birthday [] AddressBook_init
     = ((lit ''not enough values to unpack (expected 1, got 0)''), AddressBook_init)
   \<and> fst (show_birthday [] AddressBook_init) \<noteq> (lit ''Invalid command format.'')"
  by (simp add: show_birthday_def show_birthday_body_def input_error_def)

text \<open>
  C9, amended: when the argument list of \<open>show_birthday\<close> does not have exactly one
  element, the failure raised is of the \<open>ValueError\<close> class, so the wrapper returns
  that error's own message, which is not "Invalid command format."; the book is
  unchanged.
\<close>

theorem C9_show_birthday_arity:
  "length args \<noteq> 1 \<Longrightarrow>
     (\<exists>msg. show_birthday_body args book = (Inl (ValueError msg), book)
        \<and> show_birthday args book = (msg, book)
        \<and> msg \<noteq> (lit ''Invalid command format.''))"
  by (cases args rule: list.exhaust [case_names Nil Cons])
     (auto simp: show_birthday_def show_birthday_body_def input_error_def split: list.splits)

theorem C9_show_birthday_arity_witness:
  "\<exists>msg. show_birthday_body [(lit ''jane''), (lit ''extra'')] AddressBook_init
            = (Inl (ValueError msg), AddressBook_init)
        \<and> show_birthday [(lit ''jane''), (lit ''extra'')] AddressBook_init = (msg, AddressBook_init)
        \<and> msg \<noteq> (lit ''Invalid command format.'')"
  using C9_show_birthday_arity [of "[(lit ''jane''), (lit ''extra'')]" AddressBook_init]
  by simp

text \<open>
  C10, as the claim states it, fails: the new Phone is constructed before the list is
  indexed, so with the malformed value \<open>123\<close> the change handler returns the validation
  message, not the message for \<open>IndexError\<close>.
\<close>

theorem C10_counterexample:
  "AddressBook_find
     \<lparr>data = [((lit ''bob''), \<lparr>name = Field (lit ''bob''), phones = [], birthday = None\<rparr>)]\<rparr> (lit ''bob'')
     = Some \<lparr>name = Field (lit ''bob''), phones = [], birthday = None\<rparr>
   \<and> change_contact [(lit ''bob''), (lit ''123'')]
       \<lparr>data = [((lit ''bob''), \<lparr>name = Field (lit ''bob''), phones = [], birthday = None\<rparr>)]\<rparr>
     = ((lit ''Invalid phone number format. Must be 10 digits.''),
        \<lparr>data = [((lit ''bob''), \<lparr>name = Field (lit ''bob''), phones = [], birthday = None\<rparr>)]\<rparr>)
   \<and> (lit ''Invalid phone number format. Must be 10 digits.'') \<noteq> (lit ''Invalid command format.'')"
  by (simp add: AddressBook_find_def change_contact_def change_contact_body_def Phone_def
      InvalidPhone_def input_error_def)

text \<open>
  C10, amended: for a book that holds under the name a Record with an empty phone list,
  the change handler called with that name and a well-formed new phone value returns
  "Invalid command format." (the \<open>IndexError\<close> of indexing the empty list), and called
  with a malformed value returns the validation message; in both cases the book and the
  Record's phone list are unchanged.
\<close>

theorem C10_change_contact_no_phones:
  "AddressBook_find book nm = Some r \<Longrightarrow> phones r = [] \<Longrightarrow>
     change_contact [nm, new_phone] book =
       (if isdigit new_phone \<and> length new_phone = 10 then (lit ''Invalid command format.'')
        else InvalidPhone, book)"
  by (simp add: change_contact_def change_contact_body_def Phone_def input_error_def)

theorem C10_change_contact_no_phones_witness:
  "change_contact [(lit ''bob''), (lit ''1234567890'')]
       \<lparr>data = [((lit ''bob''), \<lparr>name = Field (lit ''bob''), phones = [], birthday = None\<rparr>)]\<rparr>
     = ((lit ''Invalid command format.''),
        \<lparr>data = [((lit ''bob''), \<lparr>name = Field (lit ''bob''), phones = [], birthday = None\<rparr>)]\<rparr>)"
proof -
  have f: "AddressBook_find
     \<lparr>data = [((lit ''bob''), \<lparr>name = Field (lit ''bob''), phones = [], birthday = None\<rparr>)]\<rparr> (lit ''bob'')
     = Some \<lparr>name = Field (lit ''bob''), phones = [], birthday = None\<rparr>"
    by (simp add: AddressBook_find_def)
  have v: "isdigit (lit ''1234567890'') \<and> length (lit ''1234567890'') = 10"
    by (simp add: isdigit_def isdigit_char_ascii spec_ascii_digit_def)
  from C10_change_contact_no_phones [OF f, of "(lit ''1234567890'')"] v
  show ?thesis by simp
qed

section \<open>The format invariant of stored phones\<close>

lemma Phone_ok: "Phone v = Inr p \<Longrightarrow> phone_ok p"
  by (auto simp: Phone_def phone_ok_def split: if_splits)

lemma add_phone_ok: "phones_ok r \<Longrightarrow> phones_ok (snd (add_phone r phone))"
  by (auto simp: add_phone_def phones_ok_def dest: Phone_ok split: sum.splits py_error.splits)

lemma remove_phone_loop_ok:
  "list_all phone_ok ps \<Longrightarrow> remove_phone_loop phone ps = Some ps' \<Longrightarrow> list_all phone_ok ps'"
  by (induction ps arbitrary: ps') (auto split: if_splits)

lemma remove_phone_ok: "phones_ok r \<Longrightarrow> phones_ok (snd (remove_phone r phone))"
  by (auto simp: remove_phone_def phones_ok_def dest: remove_phone_loop_ok split: option.splits)

lemma edit_phone_loop_ok:
  "list_all phone_ok ps \<Longrightarrow> edit_phone_loop old_phone new_phone ps = Some (res, ps') \<Longrightarrow>
     list_all phone_ok ps'"
  by (induction ps arbitrary: ps' res)
     (auto dest: Phone_ok split: if_splits sum.splits py_error.splits)

lemma edit_phone_ok: "phones_ok r \<Longrightarrow> phones_ok (snd (edit_phone r old_phone new_phone))"
  by (auto simp: edit_phone_def phones_ok_def dest: edit_phone_loop_ok split: option.splits)

lemma Record_add_birthday_phones: "phones (snd (Record_add_birthday r date)) = phones r"
  by (simp add: Record_add_birthday_def split: option.splits sum.splits)

lemma Record_add_birthday_ok: "phones_ok r \<Longrightarrow> phones_ok (snd (Record_add_birthday r date))"
  by (simp add: phones_ok_def Record_add_birthday_phones)

lemma add_phone_okD: "add_phone r phone = (res, r') \<Longrightarrow> phones_ok r \<Longrightarrow> phones_ok r'"
  using add_phone_ok [of r phone] by simp

lemma Record_add_birthday_okD:
  "Record_add_birthday r date = (res, r') \<Longrightarrow> phones_ok r \<Longrightarrow> phones_ok r'"
  using Record_add_birthday_ok [of r date] by simp

lemma Record_init_ok: "Record_init nm phone bday = Inr r \<Longrightarrow> phones_ok r"
proof -
  assume init: "Record_init nm phone bday = Inr r"
  let ?r0 = "\<lparr>name = Field nm, phones = [], birthday = None\<rparr>"
  have r0: "phones_ok ?r0" by (simp add: phones_ok_def)
  obtain r1 where r1: "phones_ok r1"
    and rest: "(case bday of None \<Rightarrow> Inr r1
                | Some d \<Rightarrow> if d \<noteq> [] then
                     (case Record_add_birthday r1 d of (Inl e, r') \<Rightarrow> Inl e | (Inr u, r') \<Rightarrow> Inr r')
                   else Inr r1) = Inr r"
    using init r0
    by (auto simp: Record_init_def Let_def split: option.splits if_splits sum.splits prod.splits
        dest: add_phone_okD)
  from rest r1 show ?thesis
    by (auto split: option.splits if_splits sum.splits prod.splits dest: Record_add_birthday_okD)
qed

lemma reachable_record_ok: "reachable_record r \<Longrightarrow> phones_ok r"
  by (induction rule: reachable_record.induct)
     (simp_all add: Record_init_ok add_phone_ok edit_phone_ok remove_phone_ok
        Record_add_birthday_ok)

lemma update_ok:
  "list_all (\<lambda>(k, r). phones_ok r) al \<Longrightarrow> phones_ok r \<Longrightarrow>
     list_all (\<lambda>(k, r). phones_ok r) (AList.update nm r al)"
  by (induction al) auto

lemma delete_ok:
  "list_all (\<lambda>(k, r). phones_ok r) al \<Longrightarrow> list_all (\<lambda>(k, r). phones_ok r) (AList.delete nm al)"
  by (induction al) auto

lemma add_record_ok: "book_ok book \<Longrightarrow> phones_ok r \<Longrightarrow> book_ok (add_record book r)"
  by (simp add: book_ok_def add_record_def update_ok)

lemma mutate_ok: "book_ok book \<Longrightarrow> phones_ok r \<Longrightarrow> book_ok (mutate book nm r)"
  by (simp add: book_ok_def mutate_def update_ok)

lemma AddressBook_delete_ok: "book_ok book \<Longrightarrow> book_ok (snd (AddressBook_delete book nm))"
  by (simp add: book_ok_def AddressBook_delete_def delete_ok)

lemma find_ok: "book_ok book \<Longrightarrow> AddressBook_find book nm = Some r \<Longrightarrow> phones_ok r"
  by (auto simp: book_ok_def AddressBook_find_def list_all_iff dest!: map_of_SomeD)

lemma add_contact_ok: "book_ok book \<Longrightarrow> book_ok (snd (add_contact args book))"
  by (auto simp: add_contact_def add_contact_body_def add_record_ok Record_init_ok
      split: list.splits sum.splits)

lemma change_contact_ok: "book_ok book \<Longrightarrow> book_ok (snd (change_contact args book))"
proof -
  assume ok: "book_ok book"
  have "book_ok (mutate book nm (contact\<lparr>phones := p # rest\<rparr>))"
    if "AddressBook_find book nm = Some contact" "Phone v = Inr p" "phones contact = first # rest"
    for nm contact p rest v first
  proof -
    from find_ok [OF ok that(1)] that(3) Phone_ok [OF that(2)]
    have "phones_ok (contact\<lparr>phones := p # rest\<rparr>)"
      by (simp add: phones_ok_def)
    with ok show ?thesis by (rule mutate_ok)
  qed
  with ok show ?thesis
    by (auto simp: change_contact_def change_contact_body_def
        split: list.splits sum.splits option.splits)
qed

lemma show_phone_ok: "book_ok book \<Longrightarrow> book_ok (snd (show_phone args book))"
  by (auto simp: show_phone_def show_phone_body_def split: list.splits option.splits)

lemma show_birthday_ok: "book_ok book \<Longrightarrow> book_ok (snd (show_birthday args book))"
  by (auto simp: show_birthday_def show_birthday_body_def split: list.splits option.splits)

lemma add_birthday_ok: "book_ok book \<Longrightarrow> book_ok (snd (add_birthday args book))"
proof -
  assume ok: "book_ok book"
  have "book_ok (mutate book nm (snd (Record_add_birthday contact date)))"
    if "AddressBook_find book nm = Some contact" for nm contact date
    using ok Record_add_birthday_ok [OF find_ok [OF ok that]] by (rule mutate_ok)
  then have "book_ok (mutate book nm contact')"
    if "AddressBook_find book nm = Some contact" "Record_add_birthday contact date = (res, contact')"
    for nm contact date res contact'
    using that by (metis snd_conv)
  with ok show ?thesis
    by (auto simp: add_birthday_def add_birthday_body_def
        split: list.splits sum.splits option.splits prod.splits py_error.splits)
qed

lemma reachable_ok: "reachable book \<Longrightarrow> book_ok book"
proof (induction rule: reachable.induct)
  case initial
  show ?case by (simp add: book_ok_def AddressBook_init_def)
next
  case (by_add_record book r)
  then show ?case by (simp add: add_record_ok reachable_record_ok)
next
  case (by_add_phone book nm r phone)
  from this(3) add_phone_ok [OF find_ok [OF this(3,2)]] show ?case by (rule mutate_ok)
next
  case (by_edit_phone book nm r old_phone new_phone)
  from this(3) edit_phone_ok [OF find_ok [OF this(3,2)]] show ?case by (rule mutate_ok)
next
  case (by_remove_phone book nm r phone)
  from this(3) remove_phone_ok [OF find_ok [OF this(3,2)]] show ?case by (rule mutate_ok)
qed (simp_all add: AddressBook_delete_ok add_contact_ok change_contact_ok show_phone_ok
      add_birthday_ok show_birthday_ok)

text \<open>
  C8, as the claim states it, fails for the format the spec names, a string of exactly 10
  decimal digits: the add handler, called on the empty book with a name and ten
  superscript twos (U+00B2), stores a Phone with that value, which the Phone constructor
  accepts although no character of it is an ASCII digit or a decimal digit.
\<close>

theorem C8_counterexample:
  "reachable
     \<lparr>data = [(lit ''bob'',
        \<lparr>name = Field (lit ''bob''),
         phones = [Field [0xB2, 0xB2, 0xB2, 0xB2, 0xB2, 0xB2, 0xB2, 0xB2, 0xB2, 0xB2]],
         birthday = None\<rparr>)]\<rparr>
   \<and> \<not> spec_ascii_digits [0xB2, 0xB2, 0xB2, 0xB2, 0xB2, 0xB2, 0xB2, 0xB2, 0xB2, 0xB2]
   \<and> \<not> list_all isdecimal_char [0xB2, 0xB2, 0xB2, 0xB2, 0xB2, 0xB2, 0xB2, 0xB2, 0xB2, 0xB2]"
proof -
  let ?v = "[0xB2, 0xB2, 0xB2, 0xB2, 0xB2, 0xB2, 0xB2, 0xB2, 0xB2, 0xB2] :: str"
  have "reachable (snd (add_contact [lit ''bob'', ?v] AddressBook_init))"
    by (intro reachable.by_add_contact reachable.initial)
  moreover have "snd (add_contact [lit ''bob'', ?v] AddressBook_init)
      = \<lparr>data = [(lit ''bob'',
           \<lparr>name = Field (lit ''bob''), phones = [Field ?v], birthday = None\<rparr>)]\<rparr>"
    by (simp add: add_contact_two isdigit_def isdigit_char_B2 add_record_def
        AddressBook_init_def)
  ultimately show ?thesis
    by (simp add: spec_ascii_digits_def spec_ascii_digit_def isdecimal_char_def
        decimal_block_low)
qed

text \<open>
  C8, amended: every Phone in the phone list of a Record that the constructor and the
  methods \<open>add_phone\<close>, \<open>edit_phone\<close>, \<open>remove_phone\<close> produce, and of every Record of
  a book that the handlers (the change handler among them) and these methods produce from
  the empty book, has a value that the Phone constructor accepts: exactly 10 characters,
  each a digit character in the sense of \<open>str.isdigit\<close>. No operation stores a Phone
  that the constructor would refuse, and a stored value of ASCII characters is a string
  of exactly 10 ASCII digits.
\<close>

theorem C8_phone_invariant:
  "(reachable_record r \<longrightarrow>
      (\<forall>p \<in> set (phones r).
         Phone (field_value p) = Inr p
         \<and> isdigit (field_value p) \<and> length (field_value p) = 10
         \<and> (list_all (\<lambda>c. c < 128) (field_value p) \<longrightarrow> spec_ascii_digits (field_value p))))
   \<and> (reachable book \<longrightarrow>
      (\<forall>(k, r') \<in> set (data book). \<forall>p \<in> set (phones r').
         Phone (field_value p) = Inr p
         \<and> isdigit (field_value p) \<and> length (field_value p) = 10
         \<and> (list_all (\<lambda>c. c < 128) (field_value p) \<longrightarrow> spec_ascii_digits (field_value p))))"
proof -
  have ok: "Phone (field_value p) = Inr p
         \<and> isdigit (field_value p) \<and> length (field_value p) = 10
         \<and> (list_all (\<lambda>c. c < 128) (field_value p) \<longrightarrow> spec_ascii_digits (field_value p))"
    if "phone_ok p" for p
    using that isdigit_ascii_string [of "field_value p"]
    by (cases p) (auto simp: phone_ok_def Phone_def isdigit_def)
  have rec: "\<forall>p \<in> set (phones r). phone_ok p" if "reachable_record r"
    using reachable_record_ok [OF that] by (simp add: phones_ok_def list_all_iff)
  have bk: "\<forall>x \<in> set (data book). \<forall>p \<in> set (phones (snd x)). phone_ok p" if "reachable book"
    using reachable_ok [OF that] by (auto simp: book_ok_def phones_ok_def list_all_iff)
  show ?thesis
  proof (intro conjI impI)
    assume "reachable_record r"
    from rec [OF this] ok
    show "\<forall>p \<in> set (phones r).
         Phone (field_value p) = Inr p
         \<and> isdigit (field_value p) \<and> length (field_value p) = 10
         \<and> (list_all (\<lambda>c. c < 128) (field_value p) \<longrightarrow> spec_ascii_digits (field_value p))"
      by blast
  next
    assume "reachable book"
    from bk [OF this] ok
    show "\<forall>(k, r') \<in> set (data book). \<forall>p \<in> set (phones r').
         Phone (field_value p) = Inr p
         \<and> isdigit (field_value p) \<and> length (field_value p) = 10
         \<and> (list_all (\<lambda>c. c < 128) (field_value p) \<longrightarrow> spec_ascii_digits (field_value p))"
      unfolding case_prod_unfold by blast
  qed
qed

theorem C8_phone_invariant_witness:
  "reachable_record \<lparr>name = Field (lit ''jane''), phones = [Field (lit ''1234567890'')], birthday = None\<rparr>
   \<and> reachable
       \<lparr>data = [((lit ''bob''), \<lparr>name = Field (lit ''bob''), phones = [Field (lit ''0987654321'')],
                             birthday = None\<rparr>)]\<rparr>
   \<and> isdigit (lit ''1234567890'') \<and> length (lit ''1234567890'') = 10
   \<and> isdigit (lit ''0987654321'') \<and> length (lit ''0987654321'') = 10"
proof -
  let ?R = "\<lparr>name = Field (lit ''jane''), phones = [Field (lit ''1234567890'')], birthday = None\<rparr>"
  let ?B = "\<lparr>data = [((lit ''bob''), \<lparr>name = Field (lit ''bob''), phones = [Field (lit ''0987654321'')],
                             birthday = None\<rparr>)]\<rparr>"
  have "Record_init (lit ''jane'') (Some (lit ''1234567890'')) None = Inr ?R"
    by (simp add: Record_init_def add_phone_def Phone_def isdigit_def isdigit_char_ascii spec_ascii_digit_def)
  then have rr: "reachable_record ?R"
    by (rule reachable_record.constructed)
  have "reachable (snd (change_contact [(lit ''bob''), (lit ''0987654321'')]
          (snd (add_contact [(lit ''bob''), (lit ''1234567890'')] AddressBook_init))))"
    by (intro reachable.by_change_contact reachable.by_add_contact reachable.initial)
  moreover have "snd (change_contact [(lit ''bob''), (lit ''0987654321'')]
          (snd (add_contact [(lit ''bob''), (lit ''1234567890'')] AddressBook_init))) = ?B"
    by (simp add: change_contact_def change_contact_body_def add_contact_def
        add_contact_body_def Record_init_def add_phone_def Phone_def isdigit_def
        isdigit_char_ascii spec_ascii_digit_def add_record_def AddressBook_init_def AddressBook_find_def mutate_def
        input_error_def)
  ultimately have rb: "reachable ?B" by simp
  from C8_phone_invariant [of ?R ?B] rr rb show ?thesis by simp
qed

section \<open>The upcoming-birthdays query\<close>










end
